theory Spec2Isabelle
  imports Complex_Main
begin

section \<open>Python values\<close>

text \<open>
  The services pass JSON-like data around as \<^verbatim>\<open>Dict[str, Any]\<close>. A value is one
  of the JSON shapes; a dictionary is an association list in insertion order (Python
  dictionaries keep it). Python's \<^verbatim>\<open>float\<close> is modelled by \<^typ>\<open>real\<close>: the
  arithmetic below is exact, rounding is not modelled. A Python \<^verbatim>\<open>str\<close> is a
  list of code points; the model covers the code points below 256 (one \<^typ>\<open>char\<close>
  each), which holds every letter of the French keyword tables: \<open>CHR 0xE9\<close> is
  e-acute, \<open>CHR 0xE8\<close> e-grave, \<open>CHR 0xEE\<close> i-circumflex, \<open>CHR 0xE0\<close> a-grave,
  \<open>CHR 0xB0\<close> the degree sign. \<open>Any\<close> also admits objects that are no JSON value (a
  set, bytes, a \<^verbatim>\<open>datetime\<close>): \<open>PObject t n\<close> is such an object, with its truth value
  \<open>t\<close> and a name \<open>n\<close>; two of them are equal when they are the same.
\<close>

datatype pyval =
    PNone
  | PBool bool
  | PInt int
  | PFloat real
  | PStr string
  | PList "pyval list"
  | PDict "(string \<times> pyval) list"
  | PObject bool string

type_synonym pydict = "(string \<times> pyval) list"

text \<open>Python truthiness (\<^verbatim>\<open>if x:\<close>).\<close>

fun py_truthy :: "pyval \<Rightarrow> bool" where
  "py_truthy PNone = False"
| "py_truthy (PBool b) = b"
| "py_truthy (PInt i) = (i \<noteq> 0)"
| "py_truthy (PFloat r) = (r \<noteq> 0)"
| "py_truthy (PStr s) = (s \<noteq> [])"
| "py_truthy (PList xs) = (xs \<noteq> [])"
| "py_truthy (PDict d) = (d \<noteq> [])"
| "py_truthy (PObject t n) = t"

text \<open>
  Python's \<^verbatim>\<open>==\<close>: booleans, integers and floats compare by numeric value, lists
  element by element, dictionaries as sets of bindings (their order does not count).
\<close>

fun py_num :: "pyval \<Rightarrow> real option" where
  "py_num (PBool b) = Some (if b then 1 else 0)"
| "py_num (PInt i) = Some (real_of_int i)"
| "py_num (PFloat r) = Some r"
| "py_num _ = None"

primrec py_eq :: "pyval \<Rightarrow> pyval \<Rightarrow> bool" where
  "py_eq PNone = (\<lambda>v. v = PNone)"
| "py_eq (PBool b) = (\<lambda>v. py_num v = Some (if b then 1 else 0))"
| "py_eq (PInt i) = (\<lambda>v. py_num v = Some (real_of_int i))"
| "py_eq (PFloat r) = (\<lambda>v. py_num v = Some r)"
| "py_eq (PStr s) = (\<lambda>v. v = PStr s)"
| "py_eq (PList xs) = (\<lambda>v. case v of
       PList ys \<Rightarrow> list_all2 (\<lambda>f y. f y) (map py_eq xs) ys
     | _ \<Rightarrow> False)"
| "py_eq (PDict d) = (\<lambda>v. case v of
       PDict e \<Rightarrow> length d = length e \<and>
         list_all (\<lambda>(k, f). case map_of e k of None \<Rightarrow> False | Some w \<Rightarrow> f w)
           (map (map_prod id py_eq) d)
     | _ \<Rightarrow> False)"
| "py_eq (PObject t n) = (\<lambda>v. v = PObject t n)"

text \<open>The exceptions that the modelled code raises or lets through.\<close>

datatype py_error =
    HTTPError
  | ValueError string
  | TypeError string
  | RuntimeError string

text \<open>
  Python refuses to convert between an \<^verbatim>\<open>int\<close> and a decimal string of more than
  4300 digits (the default of \<^verbatim>\<open>sys.get_int_max_str_digits()\<close>): \<^verbatim>\<open>int(s)\<close>,
  \<^verbatim>\<open>str(i)\<close> and \<^verbatim>\<open>json.dumps(i)\<close> raise \<^verbatim>\<open>ValueError\<close>.
\<close>

definition int_max_str_digits :: nat where
  "int_max_str_digits = 4300"

definition digits_limit_error :: py_error where
  "digits_limit_error =
     ValueError ''Exceeds the limit (4300 digits) for integer string conversion''"




text \<open>\<^verbatim>\<open>x in xs\<close> for a list \<open>xs\<close>.\<close>

definition py_in :: "pyval \<Rightarrow> pyval list \<Rightarrow> bool" where
  "py_in x xs = list_ex (py_eq x) xs"

text \<open>\<^verbatim>\<open>d.get(k, default)\<close>, \<^verbatim>\<open>d[k] = v\<close> and \<^verbatim>\<open>d.update(e)\<close>.\<close>

definition dict_get :: "pydict \<Rightarrow> string \<Rightarrow> pyval \<Rightarrow> pyval" where
  "dict_get d k dflt = (case map_of d k of None \<Rightarrow> dflt | Some v \<Rightarrow> v)"

fun dict_set :: "(string \<times> 'a) list \<Rightarrow> string \<Rightarrow> 'a \<Rightarrow> (string \<times> 'a) list" where
  "dict_set [] k v = [(k, v)]"
| "dict_set ((k', v') # d) k v = (if k' = k then (k, v) # d else (k', v') # dict_set d k v)"

fun dict_update :: "pydict \<Rightarrow> pydict \<Rightarrow> pydict" where
  "dict_update d [] = d"
| "dict_update d ((k, v) # e) = dict_update (dict_set d k v) e"

section \<open>Intent, Context, Decision (legacy/enthropic/ai\_service.py)\<close>

datatype IntentType = CONTROL | QUERY | AUTOMATION | SCENE | ROUTINE | DIAGNOSTIC

fun intent_type_value :: "IntentType \<Rightarrow> string" where
  "intent_type_value CONTROL = ''control''"
| "intent_type_value QUERY = ''query''"
| "intent_type_value AUTOMATION = ''automation''"
| "intent_type_value SCENE = ''scene''"
| "intent_type_value ROUTINE = ''routine''"
| "intent_type_value DIAGNOSTIC = ''diagnostic''"

text \<open>
  The dataclasses. Field names carry a prefix because record fields share one name space.
  \<open>i_entities\<close> maps an entity category to the sequence of values extracted for it
  (what \<^verbatim>\<open>IntentParser\<close> builds); timestamps are points of an abstract clock.
\<close>

record Intent =
  i_type :: IntentType
  i_text :: string
  i_confidence :: real
  i_entities :: "(string \<times> pyval list) list"
  i_timestamp :: nat

record Context =
  c_user_id :: "string option"
  c_location :: "string option"
  c_time_of_day :: "string option"
  c_weather :: "pydict option"
  c_device_states :: pydict
  c_user_preferences :: pydict
  c_recent_actions :: "pyval list"
  c_timestamp :: nat

text \<open>
  \<^verbatim>\<open>Decision.reasoning\<close> is a string. The local engine builds it by joining parts with
  \<^verbatim>\<open>". "\<close>, one of them the confidence printed with two decimals; the model keeps the
  parts before they are joined and printed.
\<close>

datatype reasoning_part =
    RIntent string
  | RTimeOfDay string
  | RLocation string
  | RRule string string
  | RConfidence real

datatype reasoning = RText string | RParts "reasoning_part list"

record Decision =
  d_action :: string
  d_target :: string
  d_parameters :: pydict
  d_confidence :: real
  d_reasoning :: reasoning
  d_alternatives :: "pyval list"
  d_timestamp :: nat

section \<open>DecisionEngine (legacy/enthropic/decision\_engine.py)\<close>

text \<open>
  \<^verbatim>\<open>DecisionRule.condition\<close> is a dictionary. \<^verbatim>\<open>_rule_matches\<close> reads three of its
  keys: \<^verbatim>\<open>"intent_type"\<close>, \<^verbatim>\<open>"entities"\<close> (a dictionary from category to expected
  values) and \<^verbatim>\<open>"context"\<close> (a dictionary from field name to expected value). The
  record gives each of the three its shape, absent when \<open>None\<close>; every other key of the
  dictionary is kept, unread, in \<open>cond_other\<close>.
\<close>

record Condition =
  cond_intent_type :: "IntentType option"
  cond_entities :: "(string \<times> pyval list) list option"
  cond_context :: "(string \<times> pyval) list option"
  cond_other :: pydict

record DecisionRule =
  r_condition :: Condition
  r_action :: string
  r_target :: string
  r_parameters :: pydict
  r_priority :: int
  r_confidence :: real

definition mk_rule ::
  "Condition \<Rightarrow> string \<Rightarrow> string \<Rightarrow> pydict \<Rightarrow> int \<Rightarrow> real \<Rightarrow> DecisionRule" where
  "mk_rule c a t p pr cf =
     \<lparr>r_condition = c, r_action = a, r_target = t, r_parameters = p,
      r_priority = pr, r_confidence = cf\<rparr>"

definition type_only :: "IntentType \<Rightarrow> Condition" where
  "type_only t =
     \<lparr>cond_intent_type = Some t, cond_entities = None, cond_context = None, cond_other = []\<rparr>"

definition type_and_key :: "IntentType \<Rightarrow> string \<Rightarrow> string list \<Rightarrow> Condition" where
  "type_and_key t k vs =
     \<lparr>cond_intent_type = Some t, cond_entities = None, cond_context = None,
      cond_other = [(k, PList (map PStr vs))]\<rparr>"

text \<open>
  \<^verbatim>\<open>_initialize_rules\<close>. The rules on entities are written in the source with the
  single key \<^verbatim>\<open>"entities.action"\<close> (or \<^verbatim>\<open>"entities.scene"\<close>), not with a nested
  \<^verbatim>\<open>"entities"\<close> dictionary.
\<close>

definition initialize_rules :: "DecisionRule list" where
  "initialize_rules =
    [ mk_rule (type_and_key CONTROL ''entities.action'' [''allume'', ''active''])
        ''turn_on'' ''living_room_light'' [] 1 0.9,
      mk_rule (type_and_key CONTROL ''entities.action''
                 [CHR 0xE9 # ''teins'', ''d'' @ CHR 0xE9 # ''sactive''])
        ''turn_off'' ''living_room_light'' [] 1 0.9,
      mk_rule (type_only QUERY) ''query_status'' ''all_devices'' [] 2 0.8,
      mk_rule (type_and_key SCENE ''entities.scene'' [''cin'' @ CHR 0xE9 # ''ma'', ''cinema''])
        ''activate_scene'' ''living_room'' [(''scene_name'', PStr ''cinema'')] 1 0.85,
      mk_rule (type_and_key SCENE ''entities.scene'' [''lecture'', ''reading''])
        ''activate_scene'' ''living_room'' [(''scene_name'', PStr ''reading'')] 1 0.85,
      mk_rule (type_only AUTOMATION) ''create_automation'' ''system'' [] 3 0.7,
      mk_rule (type_only DIAGNOSTIC) ''diagnose'' ''system'' [] 4 0.6 ]"

text \<open>
  \<^verbatim>\<open>getattr(context, key, None)\<close> on the dataclass fields; a name that is no field
  gives the default \<^verbatim>\<open>None\<close>. (The timestamp, a \<^verbatim>\<open>datetime\<close>, and the methods of
  the class equal no JSON value; they are not modelled and read as \<^verbatim>\<open>None\<close>.)
\<close>

definition opt_str :: "string option \<Rightarrow> pyval" where
  "opt_str s = (case s of None \<Rightarrow> PNone | Some x \<Rightarrow> PStr x)"

definition context_getattr :: "Context \<Rightarrow> string \<Rightarrow> pyval" where
  "context_getattr c k =
     (if k = ''user_id'' then opt_str (c_user_id c)
      else if k = ''location'' then opt_str (c_location c)
      else if k = ''time_of_day'' then opt_str (c_time_of_day c)
      else if k = ''weather'' then (case c_weather c of None \<Rightarrow> PNone | Some d \<Rightarrow> PDict d)
      else if k = ''device_states'' then PDict (c_device_states c)
      else if k = ''user_preferences'' then PDict (c_user_preferences c)
      else if k = ''recent_actions'' then PList (c_recent_actions c)
      else PNone)"

text \<open>The loop over \<^verbatim>\<open>rule.condition["entities"].items()\<close>.\<close>

fun entities_match :: "(string \<times> pyval list) list \<Rightarrow> Intent \<Rightarrow> bool" where
  "entities_match [] intent = True"
| "entities_match ((entity_type, expected_values) # rest) intent =
     (case map_of (i_entities intent) entity_type of
        None \<Rightarrow> False
      | Some entity_values \<Rightarrow>
          if \<not> list_ex (\<lambda>value. py_in value entity_values) expected_values then False
          else entities_match rest intent)"

text \<open>The loop over \<^verbatim>\<open>rule.condition["context"].items()\<close>.\<close>

fun context_match :: "(string \<times> pyval) list \<Rightarrow> Context \<Rightarrow> bool" where
  "context_match [] context = True"
| "context_match ((context_key, expected_value) # rest) context =
     (if \<not> py_eq (context_getattr context context_key) expected_value then False
      else context_match rest context)"

definition rule_matches :: "DecisionRule \<Rightarrow> Intent \<Rightarrow> Context \<Rightarrow> bool" where
  "rule_matches rule intent context =
     (let cond = r_condition rule in
      if (case cond_intent_type cond of None \<Rightarrow> False | Some t \<Rightarrow> i_type intent \<noteq> t)
      then False
      else if (case cond_entities cond of None \<Rightarrow> False | Some es \<Rightarrow> \<not> entities_match es intent)
      then False
      else if (case cond_context cond of None \<Rightarrow> False | Some cs \<Rightarrow> \<not> context_match cs context)
      then False
      else True)"

definition evaluate_rules :: "DecisionRule list \<Rightarrow> Intent \<Rightarrow> Context \<Rightarrow> DecisionRule list" where
  "evaluate_rules rules intent context = filter (\<lambda>rule. rule_matches rule intent context) rules"

subsection \<open>Confidence\<close>

definition calculate_context_factor :: "Context \<Rightarrow> real" where
  "calculate_context_factor context =
     (let factor = 0.5;
          factor = (if py_truthy (opt_str (c_location context)) then factor + 0.1 else factor);
          factor = (if (case c_weather context of None \<Rightarrow> False | Some w \<Rightarrow> w \<noteq> [])
                    then factor + 0.1 else factor);
          factor = (if c_device_states context \<noteq> [] then factor + 0.2 else factor);
          factor = (if c_user_preferences context \<noteq> [] then factor + 0.1 else factor)
      in min 1.0 factor)"

definition calculate_time_factor :: "Context \<Rightarrow> real" where
  "calculate_time_factor context =
     (case c_time_of_day context of
        None \<Rightarrow> 0.5
      | Some t \<Rightarrow>
          if t = [] then 0.5
          else if t = ''morning'' then 0.8
          else if t = ''afternoon'' then 0.9
          else if t = ''evening'' then 0.7
          else if t = ''night'' then 0.5
          else 0.5)"

definition calculate_preference_factor :: "Context \<Rightarrow> real" where
  "calculate_preference_factor context =
     (if c_user_preferences context = [] then 0.5
      else if py_truthy (dict_get (c_user_preferences context) ''auto_optimization'' (PBool False))
      then 0.9
      else 0.5)"

definition off_actions :: "pyval list" where
  "off_actions = [PStr (CHR 0xE9 # ''teins''), PStr (''d'' @ CHR 0xE9 # ''sactive'')]"

definition calculate_energy_factor :: "Intent \<Rightarrow> Context \<Rightarrow> real" where
  "calculate_energy_factor intent context =
     (if i_type intent = CONTROL then
        (case map_of (i_entities intent) ''action'' of
           None \<Rightarrow> 0.5
         | Some actions \<Rightarrow>
             if list_ex (\<lambda>action. py_in action off_actions) actions then 0.9 else 0.5)
      else 0.5)"

definition calculate_privacy_factor :: "Intent \<Rightarrow> Context \<Rightarrow> real" where
  "calculate_privacy_factor intent context = (if i_type intent = QUERY then 0.8 else 0.5)"

definition calculate_confidence :: "Intent \<Rightarrow> Context \<Rightarrow> DecisionRule \<Rightarrow> real" where
  "calculate_confidence intent context rule =
     (let base_confidence = r_confidence rule;
          intent_factor = i_confidence intent * 0.3;
          context_factor = calculate_context_factor context * 0.2;
          time_factor = calculate_time_factor context * 0.15;
          preference_factor = calculate_preference_factor context * 0.2;
          energy_factor = calculate_energy_factor intent context * 0.1;
          privacy_factor = calculate_privacy_factor intent context * 0.05;
          confidence = base_confidence *
            (intent_factor + context_factor + time_factor +
             preference_factor + energy_factor + privacy_factor)
      in max 0.1 (min 1.0 confidence))"

subsection \<open>Local decision\<close>

definition generate_reasoning :: "Intent \<Rightarrow> Context \<Rightarrow> DecisionRule \<Rightarrow> reasoning" where
  "generate_reasoning intent context rule =
     RParts
       ([RIntent (intent_type_value (i_type intent))]
        @ (case c_time_of_day context of
             None \<Rightarrow> [] | Some t \<Rightarrow> if t = [] then [] else [RTimeOfDay t])
        @ (case c_location context of
             None \<Rightarrow> [] | Some l \<Rightarrow> if l = [] then [] else [RLocation l])
        @ [RRule (r_action rule) (r_target rule)]
        @ [RConfidence (calculate_confidence intent context rule)])"

text \<open>
  \<^verbatim>\<open>rule == selected_rule\<close> is the field-wise equality of the dataclass; the model
  compares the records.
\<close>

fun generate_alternatives :: "DecisionRule list \<Rightarrow> DecisionRule \<Rightarrow> pyval list" where
  "generate_alternatives [] selected_rule = []"
| "generate_alternatives (rule # rest) selected_rule =
     (if rule = selected_rule then generate_alternatives rest selected_rule
      else PDict
             [(''action'', PStr (r_action rule)),
              (''target'', PStr (r_target rule)),
              (''parameters'', PDict (r_parameters rule)),
              (''confidence'', PFloat (r_confidence rule * 0.8)),
              (''reasoning'',
                 PStr (''Alternative: '' @ r_action rule @ '' sur '' @ r_target rule))]
           # generate_alternatives rest selected_rule)"

text \<open>
  \<^verbatim>\<open>max(matching_rules, key=lambda r: (r.priority, r.confidence))\<close>: the first rule
  whose key no later rule exceeds; tuples compare lexicographically.
\<close>

definition key_less :: "DecisionRule \<Rightarrow> DecisionRule \<Rightarrow> bool" where
  "key_less a b =
     (r_priority a < r_priority b \<or>
      (r_priority a = r_priority b \<and> r_confidence a < r_confidence b))"

fun max_by_key :: "DecisionRule \<Rightarrow> DecisionRule list \<Rightarrow> DecisionRule" where
  "max_by_key best [] = best"
| "max_by_key best (r # rs) = max_by_key (if key_less best r then r else best) rs"

definition noop_reasoning :: string where
  "noop_reasoning =
     ''Aucune r'' @ CHR 0xE8 # ''gle correspondante trouv'' @ CHR 0xE9 # ''e''"

definition make_local_decision ::
  "DecisionRule list \<Rightarrow> nat \<Rightarrow> Intent \<Rightarrow> Context \<Rightarrow> pyval list \<Rightarrow> Decision" where
  "make_local_decision rules now intent context available_actions =
     (case evaluate_rules rules intent context of
        r # rs \<Rightarrow>
          (let matching_rules = r # rs;
               best_rule = max_by_key r rs
           in \<lparr>d_action = r_action best_rule,
               d_target = r_target best_rule,
               d_parameters = r_parameters best_rule,
               d_confidence = calculate_confidence intent context best_rule,
               d_reasoning = generate_reasoning intent context best_rule,
               d_alternatives = generate_alternatives matching_rules best_rule,
               d_timestamp = now\<rparr>)
      | [] \<Rightarrow>
          \<lparr>d_action = ''noop'', d_target = [], d_parameters = [], d_confidence = 0.1,
           d_reasoning = RText noop_reasoning, d_alternatives = [], d_timestamp = now\<rparr>)"

subsection \<open>The remote delegate and the decision cache\<close>

text \<open>
  The remote delegate is outside the program. One call of
  \<^verbatim>\<open>http_client.post(...)\<close>, \<^verbatim>\<open>raise_for_status()\<close> and \<^verbatim>\<open>response.json()\<close> has
  one of these outcomes: an \<^verbatim>\<open>httpx.HTTPError\<close> (the transport failed, or the
  status is an error such as 500), a body that is not JSON, or a JSON object. The object
  is read with \<^verbatim>\<open>.get\<close> field by field, so each field may be absent; its
  \<^verbatim>\<open>"timestamp"\<close> goes through \<^verbatim>\<open>datetime.fromisoformat\<close>, which raises on a
  string that is no ISO date.
\<close>

datatype iso_timestamp = IsoValid nat | IsoInvalid

record decision_data =
  dd_action :: "string option"
  dd_target :: "string option"
  dd_parameters :: "pydict option"
  dd_confidence :: "real option"
  dd_reasoning :: "string option"
  dd_alternatives :: "pyval list option"
  dd_timestamp :: "iso_timestamp option"

datatype api_outcome =
    TransportError
  | HTTPStatusError nat
  | BodyNotJSON
  | Response decision_data

definition call_decision_api :: "api_outcome \<Rightarrow> py_error + decision_data" where
  "call_decision_api outcome =
     (case outcome of
        TransportError \<Rightarrow> Inl HTTPError
      | HTTPStatusError code \<Rightarrow> Inl HTTPError
      | BodyNotJSON \<Rightarrow> Inl (ValueError ''json'')
      | Response data \<Rightarrow> Inr data)"

definition get_or :: "'a option \<Rightarrow> 'a \<Rightarrow> 'a" where
  "get_or field dflt = (case field of None \<Rightarrow> dflt | Some v \<Rightarrow> v)"

definition decision_of_data :: "decision_data \<Rightarrow> nat \<Rightarrow> py_error + Decision" where
  "decision_of_data data now =
     (case get_or (dd_timestamp data) (IsoValid now) of
        IsoInvalid \<Rightarrow> Inl (ValueError ''fromisoformat'')
      | IsoValid t \<Rightarrow>
          Inr \<lparr>d_action = get_or (dd_action data) ''noop'',
               d_target = get_or (dd_target data) [],
               d_parameters = get_or (dd_parameters data) [],
               d_confidence = get_or (dd_confidence data) 0.5,
               d_reasoning = RText (get_or (dd_reasoning data) ''No reasoning provided''),
               d_alternatives = get_or (dd_alternatives data) [],
               d_timestamp = t\<rparr>)"

record DecisionEngine =
  rules :: "DecisionRule list"
  decision_cache :: "string \<rightharpoonup> Decision"

definition new_engine :: DecisionEngine where
  "new_engine = \<lparr>rules = initialize_rules, decision_cache = Map.empty\<rparr>"

text \<open>\<^verbatim>\<open>f"{x}"\<close> of an optional string: \<^verbatim>\<open>None\<close> prints as \<^verbatim>\<open>None\<close>.\<close>

definition fmt_opt :: "string option \<Rightarrow> string" where
  "fmt_opt s = (case s of None \<Rightarrow> ''None'' | Some x \<Rightarrow> x)"

definition get_decision_cache_key :: "Intent \<Rightarrow> Context \<Rightarrow> string" where
  "get_decision_cache_key intent context =
     (let intent_part = intent_type_value (i_type intent) @ '':'' @ take 20 (i_text intent);
          context_part = fmt_opt (c_user_id context) @ '':'' @ fmt_opt (c_time_of_day context)
      in ''decision:'' @ intent_part @ '':'' @ context_part)"

text \<open>
  \<^verbatim>\<open>make_decision\<close>: the engine before the call, the outcome of the remote call (used
  on a cache miss only) and the clock come in; the Decision and the engine after the call
  come out. The \<^verbatim>\<open>try\<close> covers the remote call and the construction of the Decision;
  its handler catches every \<^verbatim>\<open>Exception\<close> and runs the local rules.
\<close>

definition make_decision ::
  "DecisionEngine \<Rightarrow> api_outcome \<Rightarrow> nat \<Rightarrow> Intent \<Rightarrow> Context \<Rightarrow> pyval list
     \<Rightarrow> Decision \<times> DecisionEngine" where
  "make_decision engine outcome now intent context available_actions =
     (let cache_key = get_decision_cache_key intent context in
      case decision_cache engine cache_key of
        Some cached \<Rightarrow> (cached, engine)
      | None \<Rightarrow>
          (let attempt =
                 (case call_decision_api outcome of
                    Inl e \<Rightarrow> Inl e
                  | Inr decision_data \<Rightarrow> decision_of_data decision_data now);
               decision =
                 (case attempt of
                    Inr d \<Rightarrow> d
                  | Inl e \<Rightarrow>
                      make_local_decision (rules engine) now intent context available_actions)
           in (decision,
               engine\<lparr>decision_cache := (decision_cache engine)(cache_key \<mapsto> decision)\<rparr>)))"

text \<open>The remote call fails: it raises instead of returning a body.\<close>

definition delegate_fails :: "api_outcome \<Rightarrow> bool" where
  "delegate_fails outcome = (case call_decision_api outcome of Inl e \<Rightarrow> True | Inr d \<Rightarrow> False)"

section \<open>AIService.\_decision\_to\_command (legacy/enthropic/ai\_service.py)\<close>

definition decision_to_command :: "Decision \<Rightarrow> pydict" where
  "decision_to_command decision =
     (let command_map =
        [(''turn_on'', [(''on'', PBool True)]),
         (''turn_off'', [(''on'', PBool False)]),
         (''set_brightness'',
            [(''bri'', dict_get (d_parameters decision) ''brightness'' (PInt 100))]),
         (''set_color'',
            [(''hue'', dict_get (d_parameters decision) ''hue'' (PInt 0)),
             (''sat'', dict_get (d_parameters decision) ''saturation'' (PInt 100))]),
         (''query_status'', [(''query'', PStr ''status'')])]
      in case map_of command_map (d_action decision) of None \<Rightarrow> [] | Some command \<Rightarrow> command)"

section \<open>ContextManager (enthropic/context\_manager.py)\<close>














subsection \<open>The sources\<close>












subsection \<open>Merging\<close>



definition as_list :: "pyval \<Rightarrow> pyval list" where
  "as_list v = (case v of PList xs \<Rightarrow> xs | _ \<Rightarrow> [])"




subsection \<open>get\_context, update\_context, add\_action\_to\_history\<close>





text \<open>
  \<^verbatim>\<open>xs[-10:]\<close>: the last ten elements. \<^verbatim>\<open>add_action_to_history\<close> appends to
  the cached list in place and then stores a new list, the last ten elements, under
  \<^verbatim>\<open>"recent_actions"\<close>. The model follows the value that the cache holds. (A Context
  handed out before shares the old list object and sees the one appended element; that
  sharing is not modelled.)
\<close>

definition last10 :: "'a list \<Rightarrow> 'a list" where
  "last10 xs = drop (length xs - 10) xs"



subsection \<open>The cap on the history\<close>

text \<open>
  Specification predicates, used in statements only: a cached dictionary holds at most
  ten recent actions; every entry of the in-process cache does; every reply of Redis
  does, when the manager has a Redis client.
\<close>

definition capped :: "pydict \<Rightarrow> bool" where
  "capped d = (length (as_list (dict_get d ''recent_actions'' (PList []))) \<le> 10)"



section \<open>Protocol layer\<close>

subsection \<open>Protocol base (services/gateway-service/protocols/base.py)\<close>

datatype ProtocolState = DISCONNECTED | CONNECTING | CONNECTED | ERROR | RECONNECTING

text \<open>
  A protocol has a state and a list of observers (named by numbers). What the observers
  do is outside the program; two logs, read by no operation, record what the protocol does
  to them and to its state: each call \<^verbatim>\<open>on_state_change(state, error)\<close> with the observer
  it goes to, and each value assigned to \<^verbatim>\<open>self.state\<close>.
  \<^verbatim>\<open>asyncio.gather(..., return_exceptions=True)\<close> calls every observer and keeps what
  an observer raises from the caller.
\<close>

record Protocol =
  state :: ProtocolState
  observers :: "nat list"
  notifications :: "(nat \<times> ProtocolState \<times> py_error option) list"
  state_history :: "ProtocolState list"

definition add_observer :: "'a Protocol_scheme \<Rightarrow> nat \<Rightarrow> 'a Protocol_scheme" where
  "add_observer p observer =
     (if observer \<notin> set (observers p) then p\<lparr>observers := observers p @ [observer]\<rparr> else p)"

definition notify_state_change ::
  "'a Protocol_scheme \<Rightarrow> ProtocolState \<Rightarrow> py_error option \<Rightarrow> 'a Protocol_scheme" where
  "notify_state_change p st error =
     p\<lparr>state := st,
       state_history := state_history p @ [st],
       notifications := notifications p @ map (\<lambda>observer. (observer, st, error)) (observers p)\<rparr>"

subsection \<open>MQTT (legacy/protocols/mqtt.py)\<close>

text \<open>
  \<^verbatim>\<open>MQTTClient\<close>: whether \<^verbatim>\<open>_client\<close> holds an \<^verbatim>\<open>aiomqtt.Client\<close>, and
  \<^verbatim>\<open>_connected\<close>. The broker is outside the program: entering the client either
  succeeds or raises.
\<close>

record MQTTClient =
  mc_has_client :: bool
  mc_connected :: bool

datatype broker = Reachable | Unreachable string

definition new_mqtt_client :: MQTTClient where
  "new_mqtt_client = \<lparr>mc_has_client = False, mc_connected = False\<rparr>"

definition mqtt_client_connect :: "MQTTClient \<Rightarrow> broker \<Rightarrow> bool \<times> MQTTClient" where
  "mqtt_client_connect c b =
     (let c = c\<lparr>mc_has_client := True\<rparr> in
      case b of
        Reachable \<Rightarrow> (True, c\<lparr>mc_connected := True\<rparr>)
      | Unreachable e \<Rightarrow> (False, c\<lparr>mc_connected := False\<rparr>))"



record MQTTProtocol = Protocol +
  mqtt_client :: "MQTTClient option"
  listen_task :: bool

definition new_mqtt_protocol :: MQTTProtocol where
  "new_mqtt_protocol =
     \<lparr>state = DISCONNECTED, observers = [], notifications = [], state_history = [],
      mqtt_client = None, listen_task = False\<rparr>"

text \<open>
  \<^verbatim>\<open>MQTTProtocol.connect\<close>. Nothing inside its \<^verbatim>\<open>try\<close> raises
  (\<^verbatim>\<open>MQTTClient.connect\<close> catches every exception and returns \<^verbatim>\<open>False\<close>), so the
  handler that would pass the exception on to the observers is never entered.
\<close>

definition mqtt_connect :: "MQTTProtocol \<Rightarrow> broker \<Rightarrow> bool \<times> MQTTProtocol" where
  "mqtt_connect p b =
     (let p = notify_state_change p CONNECTING None;
          (connected, c) = mqtt_client_connect new_mqtt_client b;
          p = p\<lparr>mqtt_client := Some c\<rparr>
      in if connected
         then (True, (notify_state_change p CONNECTED None)\<lparr>listen_task := True\<rparr>)
         else (False, notify_state_change p ERROR None))"


subsection \<open>HTTP (protocols/http.py)\<close>








subsection \<open>WebSocket (legacy/services/gateway-service/protocols/websocket.py)\<close>





section \<open>IntentParser (legacy/enthropic/intent\_parser.py)\<close>

subsection \<open>Strings and the regular expressions of the parser\<close>

text \<open>
  \<^verbatim>\<open>str.lower\<close> and the white space of \<^verbatim>\<open>str.strip\<close> and of \<^verbatim>\<open>\s\<close>, on the code
  points below 256.
\<close>

definition lower_char :: "char \<Rightarrow> char" where
  "lower_char c =
     (let n = (of_char c :: nat) in
      if (65 \<le> n \<and> n \<le> 90) \<or> (192 \<le> n \<and> n \<le> 222 \<and> n \<noteq> 215)
      then char_of (n + 32) else c)"

definition is_space :: "char \<Rightarrow> bool" where
  "is_space c =
     (let n = (of_char c :: nat) in
      (9 \<le> n \<and> n \<le> 13) \<or> (28 \<le> n \<and> n \<le> 32) \<or> n = 133 \<or> n = 160)"

definition strip :: "string \<Rightarrow> string" where
  "strip s = rev (dropWhile is_space (rev (dropWhile is_space s)))"

text \<open>The classes \<^verbatim>\<open>\d\<close> and \<^verbatim>\<open>\w\<close> of \<^verbatim>\<open>re\<close>, on the code points below 256.\<close>

definition is_digit :: "char \<Rightarrow> bool" where
  "is_digit c = (let n = (of_char c :: nat) in 48 \<le> n \<and> n \<le> 57)"

definition is_word :: "char \<Rightarrow> bool" where
  "is_word c =
     (let n = (of_char c :: nat) in
      (48 \<le> n \<and> n \<le> 57) \<or> (65 \<le> n \<and> n \<le> 90) \<or> n = 95 \<or> (97 \<le> n \<and> n \<le> 122) \<or>
      n = 170 \<or> n = 178 \<or> n = 179 \<or> n = 181 \<or> n = 185 \<or> n = 186 \<or>
      (188 \<le> n \<and> n \<le> 190) \<or> (192 \<le> n \<and> n \<le> 214) \<or> (216 \<le> n \<and> n \<le> 246) \<or>
      (248 \<le> n \<and> n \<le> 255))"

text \<open>\<^verbatim>\<open>text.startswith(pat)\<close> and \<^verbatim>\<open>pat in text\<close>.\<close>

fun starts_with :: "string \<Rightarrow> string \<Rightarrow> bool" where
  "starts_with text [] = True"
| "starts_with [] (p # ps) = False"
| "starts_with (c # cs) (p # ps) = (c = p \<and> starts_with cs ps)"

fun contains :: "string \<Rightarrow> string \<Rightarrow> bool" where
  "contains [] pat = (pat = [])"
| "contains (c # cs) pat = (starts_with (c # cs) pat \<or> contains cs pat)"

text \<open>
  Every pattern of \<^verbatim>\<open>self.patterns\<close> has the shape
  \<^verbatim>\<open>(w1|...|wn)\s+(.+?)(\s|$)\<close>, one of them with \<^verbatim>\<open>(\s|\?)\<close> at its end: one of the
  words, white space, at least one character other than a newline, and then white space
  or the end of the text (or white space or a question mark). \<^verbatim>\<open>re.search\<close> tells
  whether the pattern matches somewhere; the engine backtracks, so it finds a match
  whenever one exists. The text is in lower case and so are the words, hence
  \<^verbatim>\<open>re.IGNORECASE\<close> changes nothing.
\<close>

datatype terminator = SpaceOrEnd | SpaceOrQuestion

fun term_ok :: "terminator \<Rightarrow> string \<Rightarrow> bool" where
  "term_ok SpaceOrEnd [] = True"
| "term_ok SpaceOrEnd (c # cs) = is_space c"
| "term_ok SpaceOrQuestion [] = False"
| "term_ok SpaceOrQuestion (c # cs) = (is_space c \<or> c = CHR ''?'')"

fun lazy_any :: "terminator \<Rightarrow> string \<Rightarrow> bool" where
  "lazy_any t [] = False"
| "lazy_any t (c # cs) = (c \<noteq> CHR 0x0A \<and> (term_ok t cs \<or> lazy_any t cs))"

fun after_spaces :: "terminator \<Rightarrow> string \<Rightarrow> bool" where
  "after_spaces t [] = False"
| "after_spaces t (c # cs) = (is_space c \<and> (lazy_any t cs \<or> after_spaces t cs))"

definition match_here :: "string list \<Rightarrow> terminator \<Rightarrow> string \<Rightarrow> bool" where
  "match_here words t text =
     list_ex (\<lambda>w. starts_with text w \<and> after_spaces t (drop (length w) text)) words"

fun re_search :: "string list \<times> terminator \<Rightarrow> string \<Rightarrow> bool" where
  "re_search (words, t) [] = match_here words t []"
| "re_search (words, t) (c # cs) = (match_here words t (c # cs) \<or> re_search (words, t) cs)"

text \<open>
  \<^verbatim>\<open>re.findall\<close> for a pattern \<^verbatim>\<open>(w1|...|wn)\<close>: from left to right, at each position
  the first word that matches there; the search goes on behind the match.
\<close>

fun first_word :: "string list \<Rightarrow> string \<Rightarrow> string option" where
  "first_word [] text = None"
| "first_word (w # ws) text = (if starts_with text w then Some w else first_word ws text)"

function findall :: "string list \<Rightarrow> string \<Rightarrow> string list" where
  "findall words [] = (case first_word words [] of None \<Rightarrow> [] | Some w \<Rightarrow> [w])"
| "findall words (c # cs) =
     (case first_word words (c # cs) of
        None \<Rightarrow> findall words cs
      | Some w \<Rightarrow> w # findall words (drop (length w - 1) cs))"
  by pat_completeness auto
termination
  by (relation "measure (\<lambda>(words, text). length text)") auto

text \<open>
  \<^verbatim>\<open>re.findall\<close> for any pattern, given the match that the pattern has at the start of
  a text (its value and its length): the text is searched from left to right, behind a
  match the search goes on, and behind an empty match one character further.
\<close>

function scan :: "(string \<Rightarrow> (string \<times> nat) option) \<Rightarrow> string \<Rightarrow> string list" where
  "scan m [] = (case m [] of None \<Rightarrow> [] | Some (v, n) \<Rightarrow> [v])"
| "scan m (c # cs) =
     (case m (c # cs) of
        None \<Rightarrow> scan m cs
      | Some (v, n) \<Rightarrow> v # scan m (drop (n - 1) cs))"
  by pat_completeness auto
termination
  by (relation "measure (\<lambda>(m, text). length text)") auto

text \<open>
  \<^verbatim>\<open>re.findall(r'\b\d+\b', text)\<close>: the runs of digits that have no word character
  before them and none behind them. \<open>prev\<close> tells whether the character before the
  text is a word character.
\<close>

function numeric_runs :: "bool \<Rightarrow> string \<Rightarrow> string list" where
  "numeric_runs prev [] = []"
| "numeric_runs prev (c # cs) =
     (if is_digit c \<and> \<not> prev \<and>
         (case dropWhile is_digit cs of [] \<Rightarrow> True | d # ds \<Rightarrow> \<not> is_word d)
      then (c # takeWhile is_digit cs) # numeric_runs True (dropWhile is_digit cs)
      else numeric_runs (is_word c) cs)"
  by pat_completeness auto
termination
  by (relation "measure (\<lambda>(prev, text). length text)")
     (auto simp: length_dropWhile_le less_Suc_eq_le)

subsection \<open>The tables\<close>

definition all_intent_types :: "IntentType list" where
  "all_intent_types = [CONTROL, QUERY, AUTOMATION, SCENE, ROUTINE, DIAGNOSTIC]"

fun patterns :: "IntentType \<Rightarrow> (string list \<times> terminator) list" where
  "patterns CONTROL =
     [([''allume'', CHR 0xE9 # ''teins'', ''active'', ''d'' @ CHR 0xE9 # ''sactive'', ''mets'',
        ''change'', ''r'' @ CHR 0xE8 # ''gle'', ''ajuste''], SpaceOrEnd),
      ([''lumi'' @ CHR 0xE8 # ''re'', ''lampe'', CHR 0xE9 # ''clairage'', ''interrupteur''],
       SpaceOrEnd),
      ([''augmente'', ''diminue'', ''monte'', ''descends''], SpaceOrEnd)]"
| "patterns QUERY =
     [([''combien'', ''quelle'', ''quel'', ''quelles'', ''quels'', CHR 0xE9 # ''tat'', ''statut'',
        ''valeur''], SpaceOrEnd),
      ([''temp'' @ CHR 0xE9 # ''rature'', ''humidit'' @ [CHR 0xE9], ''luminosit'' @ [CHR 0xE9],
        ''pression''], SpaceOrEnd),
      ([''est-ce que'', ''est ce que'', ''est-ce'', ''est ce''], SpaceOrQuestion)]"
| "patterns SCENE =
     [([''sc'' @ CHR 0xE8 # ''ne'', ''mode'', ''ambiance'', ''atmosph'' @ CHR 0xE8 # ''re''],
       SpaceOrEnd),
      ([''cin'' @ CHR 0xE9 # ''ma'', ''lecture'', ''d'' @ CHR 0xEE # ''ner'', ''romantique'',
        ''travail'', ''relax''], SpaceOrEnd),
      ([''mets'', ''active'', ''lance''], SpaceOrEnd)]"
| "patterns AUTOMATION =
     [([''quand'', ''si'', ''lorsque'', ''d'' @ CHR 0xE8 # ''s que''], SpaceOrEnd),
      ([''automatise'', ''programme'', ''planifie''], SpaceOrEnd),
      ([''routine'', ''automatisation'', ''sc'' @ CHR 0xE9 # ''nario''], SpaceOrEnd)]"
| "patterns ROUTINE = []"
| "patterns DIAGNOSTIC = []"

fun keyword_mapping :: "IntentType \<Rightarrow> string list" where
  "keyword_mapping CONTROL =
     [''allume'', CHR 0xE9 # ''teins'', ''active'', ''d'' @ CHR 0xE9 # ''sactive'', ''mets'',
      ''change'']"
| "keyword_mapping QUERY =
     [''combien'', ''quelle'', ''quel'', CHR 0xE9 # ''tat'', ''statut'', ''valeur'']"
| "keyword_mapping SCENE =
     [''sc'' @ CHR 0xE8 # ''ne'', ''mode'', ''ambiance'', ''atmosph'' @ CHR 0xE8 # ''re'',
      ''cin'' @ CHR 0xE9 # ''ma'']"
| "keyword_mapping AUTOMATION = [''quand'', ''si'', ''automatise'', ''programme'', ''routine'']"
| "keyword_mapping ROUTINE = [''routine'', ''habitude'', ''quotidien'', ''matin'', ''soir'']"
| "keyword_mapping DIAGNOSTIC =
     [''probl'' @ CHR 0xE8 # ''me'', ''erreur'', ''ne marche pas'', ''dysfonctionne'']"

text \<open>
  The words of the unit patterns, in lower case: the text is, and \<^verbatim>\<open>re.IGNORECASE\<close>
  lets \<^verbatim>\<open>hPa\<close> match \<^verbatim>\<open>hpa\<close>.
\<close>

definition unit_words :: "string list" where
  "unit_words =
     [''pourcent'', ''%'', ''degr'' @ CHR 0xE9 # ''s'', [CHR 0xB0, CHR ''c''],
      [CHR 0xB0, CHR ''f''], ''lux'', ''hpa'']"

text \<open>
  The patterns of \<^verbatim>\<open>self.entity_patterns\<close> that are more than a list of words, each as
  the match it has at the start of a text, if any: the value that \<^verbatim>\<open>_extract_entities\<close>
  keeps of the match (the first group that is not empty) and the length of the match.
  The quantifiers are greedy and the classes that follow each other are disjoint, so
  the longest run is the only one that can match.

  \<^verbatim>\<open>(\d+)\s*(pourcent|%|...)\<close>: digits, white space, a unit; the value is the digits.
\<close>

definition match_value :: "string \<Rightarrow> (string \<times> nat) option" where
  "match_value text =
     (let digits = takeWhile is_digit text;
          rest = dropWhile is_digit text;
          spaces = takeWhile is_space rest;
          rest = dropWhile is_space rest
      in if digits = [] then None
         else case first_word unit_words rest of
                None \<Rightarrow> None
              | Some unit \<Rightarrow> Some (digits, length digits + length spaces + length unit))"

text \<open>\<^verbatim>\<open>(dans\s+\d+\s+(minutes|heures|jours))\<close>; the value is the whole match.\<close>

definition match_dans :: "string \<Rightarrow> (string \<times> nat) option" where
  "match_dans text =
     (if \<not> starts_with text ''dans'' then None
      else
        (let rest = drop 4 text;
             spaces1 = takeWhile is_space rest;
             rest = dropWhile is_space rest;
             digits = takeWhile is_digit rest;
             rest = dropWhile is_digit rest;
             spaces2 = takeWhile is_space rest;
             rest = dropWhile is_space rest
         in if spaces1 = [] \<or> digits = [] \<or> spaces2 = [] then None
            else case first_word [''minutes'', ''heures'', ''jours''] rest of
                   None \<Rightarrow> None
                 | Some unit \<Rightarrow>
                     (let n = 4 + length spaces1 + length digits + length spaces2 + length unit
                      in Some (take n text, n))))"

text \<open>
  \<^verbatim>\<open>(a\s+\d+\s*h\s*\d*)\<close>, the \<^verbatim>\<open>a\<close> with a grave accent; the value is the whole
  match, with the white space and the digits that follow the \<^verbatim>\<open>h\<close>.
\<close>

definition match_a :: "string \<Rightarrow> (string \<times> nat) option" where
  "match_a text =
     (case text of
        [] \<Rightarrow> None
      | c # rest \<Rightarrow>
          if c \<noteq> CHR 0xE0 then None
          else
            (let spaces1 = takeWhile is_space rest;
                 rest = dropWhile is_space rest;
                 digits1 = takeWhile is_digit rest;
                 rest = dropWhile is_digit rest;
                 spaces2 = takeWhile is_space rest;
                 rest = dropWhile is_space rest
             in if spaces1 = [] \<or> digits1 = [] then None
                else case rest of
                       [] \<Rightarrow> None
                     | h # rest \<Rightarrow>
                         if h \<noteq> CHR ''h'' then None
                         else
                           (let spaces3 = takeWhile is_space rest;
                                rest = dropWhile is_space rest;
                                digits2 = takeWhile is_digit rest;
                                n = 1 + length spaces1 + length digits1 + length spaces2 + 1
                                      + length spaces3 + length digits2
                            in Some (take n text, n))))"

datatype entity_pattern = Words "string list" | ValueUnit | InDelay | AtHour

fun findall_pattern :: "entity_pattern \<Rightarrow> string \<Rightarrow> string list" where
  "findall_pattern (Words words) text = findall words text"
| "findall_pattern ValueUnit text = scan match_value text"
| "findall_pattern InDelay text = scan match_dans text"
| "findall_pattern AtHour text = scan match_a text"

definition entity_patterns :: "(string \<times> entity_pattern list) list" where
  "entity_patterns =
     [(''device'',
        [Words [''lumi'' @ CHR 0xE8 # ''re'', ''lampe'', CHR 0xE9 # ''clairage'', ''interrupteur'',
                ''prise'', ''capteur'', ''thermostat''],
         Words [''salon'', ''cuisine'', ''chambre'', ''salle de bain'', ''bureau'', ''couloir'',
                ''jardin'']]),
      (''action'',
        [Words [''allume'', CHR 0xE9 # ''teins'', ''active'', ''d'' @ CHR 0xE9 # ''sactive'',
                ''mets'', ''change''],
         Words [''augmente'', ''diminue'', ''monte'', ''descends'', ''r'' @ CHR 0xE8 # ''gle'',
                ''ajuste'']]),
      (''value'',
        [ValueUnit,
         Words [''chaud'', ''froid'', ''clair'', ''sombre'', ''fort'', ''faible'', ''haut'',
                ''bas'']]),
      (''time'',
        [Words [''maintenant'', ''tout de suite'', ''imm'' @ CHR 0xE9 # ''diatement'',
                ''plus tard''],
         InDelay,
         AtHour])]"

subsection \<open>Scoring and extraction\<close>

definition score :: "IntentType \<Rightarrow> string \<Rightarrow> real" where
  "score intent_type text =
     sum_list (map (\<lambda>pattern. if re_search pattern text then 0.3 else 0) (patterns intent_type))
     + sum_list (map (\<lambda>keyword. if contains text keyword then 0.2 else 0)
         (keyword_mapping intent_type))"

text \<open>\<^verbatim>\<open>max(scores.items(), key=lambda x: x[1])\<close>: the first entry of highest score.\<close>

fun max_by_score :: "IntentType \<times> real \<Rightarrow> (IntentType \<times> real) list \<Rightarrow> IntentType \<times> real" where
  "max_by_score best [] = best"
| "max_by_score best (x # xs) = max_by_score (if snd best < snd x then x else best) xs"

definition detect_intent_type :: "string \<Rightarrow> IntentType \<times> real" where
  "detect_intent_type text =
     (let scores = map (\<lambda>intent_type. (intent_type, score intent_type text)) all_intent_types;
          total_score = sum_list (map snd scores);
          scores = (if total_score > 0
                    then map (\<lambda>(intent_type, s). (intent_type, s / total_score)) scores
                    else scores);
          best_type = max_by_score (hd scores) (tl scores)
      in if snd best_type < 0.1 then (CONTROL, 0.1) else best_type)"

fun add_matches :: "string list \<Rightarrow> string list \<Rightarrow> string list" where
  "add_matches entity_values [] = entity_values"
| "add_matches entity_values (match # matches) =
     add_matches
       (if match \<noteq> [] \<and> match \<notin> set entity_values then entity_values @ [match]
        else entity_values)
       matches"

fun entity_values_of :: "entity_pattern list \<Rightarrow> string \<Rightarrow> string list \<Rightarrow> string list" where
  "entity_values_of [] text entity_values = entity_values"
| "entity_values_of (pattern # rest) text entity_values =
     entity_values_of rest text (add_matches entity_values (findall_pattern pattern text))"

fun extract_entities_from ::
  "(string \<times> entity_pattern list) list \<Rightarrow> string \<Rightarrow> (string \<times> pyval list) list" where
  "extract_entities_from [] text = []"
| "extract_entities_from ((entity_type, pats) # rest) text =
     (let entity_values = entity_values_of pats text []
      in (if entity_values \<noteq> [] then [(entity_type, map PStr entity_values)] else [])
         @ extract_entities_from rest text)"

text \<open>
  \<^verbatim>\<open>[int(v) for v in numeric_values]\<close>: \<^verbatim>\<open>int\<close> raises \<^verbatim>\<open>ValueError\<close> on a string of
  more than 4300 digits, and nothing catches it.
\<close>

definition int_of_digits :: "string \<Rightarrow> int" where
  "int_of_digits v = foldl (\<lambda>a c. 10 * a + (int (of_char c) - 48)) 0 v"

definition parse_int :: "string \<Rightarrow> py_error + int" where
  "parse_int v =
     (if length v > int_max_str_digits then Inl digits_limit_error else Inr (int_of_digits v))"

fun parse_ints :: "string list \<Rightarrow> py_error + int list" where
  "parse_ints [] = Inr []"
| "parse_ints (v # vs) =
     (case parse_int v of
        Inl e \<Rightarrow> Inl e
      | Inr i \<Rightarrow> (case parse_ints vs of Inl e \<Rightarrow> Inl e | Inr rest \<Rightarrow> Inr (i # rest)))"

definition extract_entities :: "string \<Rightarrow> py_error + (string \<times> pyval list) list" where
  "extract_entities text =
     (let entities = extract_entities_from entity_patterns text;
          numeric_values = numeric_runs False text
      in case parse_ints numeric_values of
           Inl e \<Rightarrow> Inl e
         | Inr numbers \<Rightarrow>
             (let entities =
                    entities @ (if numeric_values \<noteq> [] then [(''numeric'', map PInt numbers)]
                                else []);
                  units = findall unit_words text
              in Inr (entities @ (if units \<noteq> [] then [(''units'', map PStr units)] else []))))"

text \<open>
  \<^verbatim>\<open>parse\<close>; what \<^verbatim>\<open>_extract_entities\<close> raises reaches the caller.
\<close>

definition parse :: "string \<Rightarrow> nat \<Rightarrow> py_error + Intent" where
  "parse text now =
     (let text_lower = strip (map lower_char text);
          (intent_type, confidence) = detect_intent_type text_lower
      in case extract_entities text_lower of
           Inl e \<Rightarrow> Inl e
         | Inr entities \<Rightarrow>
             Inr \<lparr>i_type = intent_type, i_text = text, i_confidence = confidence,
                  i_entities = entities, i_timestamp = now\<rparr>)"

text \<open>The on/off keywords: allume, eteins, active, desactive (with their accents).\<close>

definition on_off_keywords :: "string list" where
  "on_off_keywords =
     [''allume'', CHR 0xE9 # ''teins'', ''active'', ''d'' @ CHR 0xE9 # ''sactive'']"

section \<open>Concrete inputs\<close>

text \<open>A Context with every field empty, as \<^verbatim>\<open>Context()\<close> builds it.\<close>

definition empty_context :: Context where
  "empty_context =
     \<lparr>c_user_id = None, c_location = None, c_time_of_day = None, c_weather = None,
      c_device_states = [], c_user_preferences = [], c_recent_actions = [], c_timestamp = 0\<rparr>"

text \<open>A request to switch the light off, with the entities the parser extracts for it.\<close>

definition eteins_intent :: Intent where
  "eteins_intent =
     \<lparr>i_type = CONTROL,
      i_text = CHR 0xE9 # ''teins la lumi'' @ CHR 0xE8 # ''re'',
      i_confidence = 0.9,
      i_entities = [(''action'', [PStr (CHR 0xE9 # ''teins'')])],
      i_timestamp = 0\<rparr>"

text \<open>Two requests whose texts agree on their first 20 characters and differ after.\<close>

definition salon_intent :: Intent where
  "salon_intent =
     \<lparr>i_type = CONTROL, i_text = ''allume la lumiere du salon'', i_confidence = 0.9,
      i_entities = [(''action'', [PStr ''allume'']), (''device'', [PStr ''salon''])],
      i_timestamp = 0\<rparr>"

definition couloir_intent :: Intent where
  "couloir_intent =
     \<lparr>i_type = CONTROL, i_text = ''allume la lumiere du couloir'', i_confidence = 0.5,
      i_entities = [(''action'', [PStr ''allume'']), (''device'', [PStr ''couloir''])],
      i_timestamp = 0\<rparr>"

text \<open>The engine after one call, with the delegate answering HTTP 500.\<close>

definition warm_engine :: DecisionEngine where
  "warm_engine =
     snd (make_decision new_engine (HTTPStatusError 500) 0 salon_intent empty_context [])"

text \<open>A response of the delegate with a confidence of 5.\<close>

definition overconfident_response :: decision_data where
  "overconfident_response =
     \<lparr>dd_action = Some ''turn_on'', dd_target = Some ''living_room_light'',
      dd_parameters = None, dd_confidence = Some 5, dd_reasoning = None,
      dd_alternatives = None, dd_timestamp = None\<rparr>"









text \<open>
  An MQTT protocol in its initial state with two observers, and an HTTP and a WebSocket
  protocol on which \<^verbatim>\<open>connect\<close> was never called.
\<close>

definition observed_mqtt :: MQTTProtocol where
  "observed_mqtt = add_observer (add_observer new_mqtt_protocol 1) 2"



text \<open>
  A sentence with an on/off keyword and the words of an automation, and a plain command.
\<close>

definition leaving_text :: string where
  "leaving_text = ''Allume tout quand je pars si possible''"

definition lamp_text :: string where
  "lamp_text = ''Allume la lampe''"






section \<open>Rule matching\<close>

text \<open>
  A rule whose condition has the nested \<^verbatim>\<open>"entities"\<close> dictionary matches only an
  intent that has every required category, with a value among the expected ones.
\<close>

lemma entities_match_member:
  "entities_match es intent \<Longrightarrow> (cat, expected) \<in> set es \<Longrightarrow>
   \<exists>vals. map_of (i_entities intent) cat = Some vals \<and> (\<exists>v \<in> set expected. py_in v vals)"
  by (induction es intent rule: entities_match.induct)
     (auto split: option.splits if_splits simp: list_ex_iff)

lemma rule_matches_entities:
  assumes "rule_matches rule intent ctx"
    and "cond_entities (r_condition rule) = Some es"
    and "(cat, expected) \<in> set es"
  shows "\<exists>vals. map_of (i_entities intent) cat = Some vals \<and> (\<exists>v \<in> set expected. py_in v vals)"
proof -
  have "entities_match es intent"
    using assms(1,2) by (auto simp: rule_matches_def Let_def split: if_splits option.splits)
  then show ?thesis using assms(3) by (rule entities_match_member)
qed

text \<open>
  Claim C1. Local rule evaluation is to treat a rule with an entity requirement as
  matching only if the intent has each required category with a value among the expected
  ones; in particular the built-in turn\_on rule, which asks for an action among allume
  and active, is not to match a CONTROL intent whose only action is "eteins" (with
  e-acute). The built-in rule does match that intent: its requirement sits under the key
  \<^verbatim>\<open>"entities.action"\<close>, which \<^verbatim>\<open>_rule_matches\<close> never reads, so the rule matches
  every CONTROL intent, and the local decision for the request to switch off is turn\_on.
\<close>

theorem turn_on_rule_matches_eteins:
  "rule_matches (hd initialize_rules) eteins_intent empty_context \<and>
   r_action (hd initialize_rules) = ''turn_on'' \<and>
   d_action (make_local_decision initialize_rules 0 eteins_intent empty_context []) = ''turn_on''"
  by (simp add: initialize_rules_def mk_rule_def type_and_key_def type_only_def rule_matches_def
      eteins_intent_def make_local_decision_def evaluate_rules_def key_less_def Let_def)

section \<open>Confidence and the fallback to local rules\<close>

lemma calculate_confidence_range:
  "0.1 \<le> calculate_confidence intent ctx rule \<and> calculate_confidence intent ctx rule \<le> 1"
  by (simp add: calculate_confidence_def Let_def)

lemma make_local_decision_confidence:
  "0.1 \<le> d_confidence (make_local_decision rs now intent ctx acts) \<and>
   d_confidence (make_local_decision rs now intent ctx acts) \<le> 1"
  using calculate_confidence_range
  by (simp add: make_local_decision_def Let_def split: list.splits)

lemma make_decision_miss_fail:
  assumes "decision_cache engine (get_decision_cache_key intent ctx) = None"
    and "delegate_fails outcome"
  shows "make_decision engine outcome now intent ctx acts =
     (make_local_decision (rules engine) now intent ctx acts,
      engine\<lparr>decision_cache := (decision_cache engine)
         (get_decision_cache_key intent ctx \<mapsto>
            make_local_decision (rules engine) now intent ctx acts)\<rparr>)"
  using assms by (auto simp: make_decision_def delegate_fails_def Let_def split: sum.splits)

lemma make_decision_hit:
  assumes "decision_cache engine (get_decision_cache_key intent ctx) = Some d"
  shows "make_decision engine outcome now intent ctx acts = (d, engine)"
  using assms by (simp add: make_decision_def)

lemma make_decision_caches:
  "decision_cache (snd (make_decision engine outcome now intent ctx acts))
     (get_decision_cache_key intent ctx)
   = Some (fst (make_decision engine outcome now intent ctx acts))"
  by (auto simp: make_decision_def Let_def split: option.splits)

lemma salon_key:
  "get_decision_cache_key salon_intent empty_context
     = ''decision:control:allume la lumiere du:None:None''"
  by (simp add: get_decision_cache_key_def salon_intent_def empty_context_def fmt_opt_def)

lemma couloir_key:
  "get_decision_cache_key couloir_intent empty_context
     = ''decision:control:allume la lumiere du:None:None''"
  by (simp add: get_decision_cache_key_def couloir_intent_def empty_context_def fmt_opt_def)

lemma fails_500: "delegate_fails (HTTPStatusError 500)"
  by (simp add: delegate_fails_def call_decision_api_def)

lemma fails_transport: "delegate_fails TransportError"
  by (simp add: delegate_fails_def call_decision_api_def)

lemma new_engine_miss: "decision_cache new_engine k = None"
  by (simp add: new_engine_def)

lemma salon_local_confidence:
  "d_confidence (make_local_decision initialize_rules 0 salon_intent empty_context []) = 0.558"
  by (simp add: initialize_rules_def mk_rule_def type_and_key_def type_only_def rule_matches_def
      salon_intent_def make_local_decision_def evaluate_rules_def key_less_def Let_def
      calculate_confidence_def calculate_context_factor_def calculate_time_factor_def
      calculate_preference_factor_def calculate_energy_factor_def calculate_privacy_factor_def
      empty_context_def opt_str_def py_in_def off_actions_def)

lemma couloir_local_confidence:
  "d_confidence (make_local_decision initialize_rules 0 couloir_intent empty_context []) = 0.45"
  by (simp add: initialize_rules_def mk_rule_def type_and_key_def type_only_def rule_matches_def
      couloir_intent_def make_local_decision_def evaluate_rules_def key_less_def Let_def
      calculate_confidence_def calculate_context_factor_def calculate_time_factor_def
      calculate_preference_factor_def calculate_energy_factor_def calculate_privacy_factor_def
      empty_context_def opt_str_def py_in_def off_actions_def)

text \<open>
  Claim C3, as stated: whenever the remote delegate fails, \<^verbatim>\<open>make_decision\<close> returns
  the Decision of \<^verbatim>\<open>_make_local_decision\<close> for the same input. It fails on a cache
  hit: after a first request, a second one whose text agrees on 20 characters gets the
  first one's Decision (confidence 0.558), not its own local Decision (confidence 0.45),
  with the delegate answering HTTP 500 throughout.
\<close>

theorem make_decision_cached_counterexample:
  "delegate_fails (HTTPStatusError 500) \<and>
   fst (make_decision warm_engine (HTTPStatusError 500) 0 couloir_intent empty_context [])
     \<noteq> make_local_decision (rules warm_engine) 0 couloir_intent empty_context []"
proof -
  have w: "warm_engine = new_engine\<lparr>decision_cache := (decision_cache new_engine)
         (get_decision_cache_key salon_intent empty_context \<mapsto>
            make_local_decision (rules new_engine) 0 salon_intent empty_context [])\<rparr>"
    unfolding warm_engine_def
    by (simp add: make_decision_miss_fail [OF new_engine_miss fails_500])
  have hit: "decision_cache warm_engine (get_decision_cache_key couloir_intent empty_context)
      = Some (make_local_decision initialize_rules 0 salon_intent empty_context [])"
    by (simp add: w salon_key couloir_key new_engine_def)
  have r: "rules warm_engine = initialize_rules"
    by (simp add: w new_engine_def)
  have "d_confidence
          (fst (make_decision warm_engine (HTTPStatusError 500) 0 couloir_intent empty_context []))
     \<noteq> d_confidence (make_local_decision (rules warm_engine) 0 couloir_intent empty_context [])"
    by (simp add: make_decision_hit [OF hit] r salon_local_confidence couloir_local_confidence)
  then show ?thesis using fails_500 by auto
qed

text \<open>
  Claim C3, amended: for every intent, context and available actions whose cache key has
  no entry in the decision cache, if the call to the remote delegate fails (it raises, as
  on HTTP 500), \<^verbatim>\<open>make_decision\<close> raises nothing, returns exactly the Decision of
  \<^verbatim>\<open>_make_local_decision\<close> for the same input and stores it under the key.
\<close>

theorem make_decision_fallback_local:
  assumes "decision_cache engine (get_decision_cache_key intent ctx) = None"
    and "delegate_fails outcome"
  shows "make_decision engine outcome now intent ctx acts =
     (make_local_decision (rules engine) now intent ctx acts,
      engine\<lparr>decision_cache := (decision_cache engine)
         (get_decision_cache_key intent ctx \<mapsto>
            make_local_decision (rules engine) now intent ctx acts)\<rparr>)"
  using assms by (rule make_decision_miss_fail)

theorem make_decision_fallback_local_witness:
  "decision_cache new_engine (get_decision_cache_key salon_intent empty_context) = None \<and>
   delegate_fails (HTTPStatusError 500) \<and>
   fst (make_decision new_engine (HTTPStatusError 500) 7 salon_intent empty_context [])
     = make_local_decision initialize_rules 7 salon_intent empty_context []"
  using make_decision_fallback_local [OF new_engine_miss fails_500, where intent = salon_intent
      and ctx = empty_context and now = 7 and acts = "[]"]
    new_engine_miss fails_500
  by (simp add: new_engine_def)

text \<open>
  Claim C4, as stated: every Decision that \<^verbatim>\<open>make_decision\<close> produces has a confidence
  in [0.1, 1.0]. It fails for a Decision built from a response of the remote delegate:
  the response's confidence, here 5, is taken as it is.
\<close>

theorem remote_confidence_counterexample:
  "\<not> (0.1 \<le> d_confidence (fst (make_decision new_engine (Response overconfident_response) 0
            salon_intent empty_context []))
      \<and> d_confidence (fst (make_decision new_engine (Response overconfident_response) 0
            salon_intent empty_context [])) \<le> 1)"
  by (simp add: make_decision_def new_engine_def call_decision_api_def decision_of_data_def
      get_or_def overconfident_response_def Let_def)

text \<open>
  Claim C4, amended: every Decision that \<^verbatim>\<open>make_decision\<close> produces by local rule
  evaluation (on a cache miss, the remote delegate failing) has a confidence in
  [0.1, 1.0], whatever the intent's confidence, the context and the rules' base weights.
\<close>

theorem local_confidence_clamped:
  assumes "decision_cache engine (get_decision_cache_key intent ctx) = None"
    and "delegate_fails outcome"
  shows "0.1 \<le> d_confidence (fst (make_decision engine outcome now intent ctx acts)) \<and>
         d_confidence (fst (make_decision engine outcome now intent ctx acts)) \<le> 1"
  using make_local_decision_confidence
  by (simp add: make_decision_miss_fail [OF assms])

theorem local_confidence_clamped_witness:
  "decision_cache new_engine (get_decision_cache_key couloir_intent empty_context) = None \<and>
   delegate_fails TransportError \<and>
   0.1 \<le> d_confidence
            (fst (make_decision new_engine TransportError 3 couloir_intent empty_context [])) \<and>
   d_confidence
     (fst (make_decision new_engine TransportError 3 couloir_intent empty_context [])) \<le> 1"
  using local_confidence_clamped [OF new_engine_miss fails_transport, where intent = couloir_intent
      and ctx = empty_context and now = 3 and acts = "[]"]
    new_engine_miss fails_transport
  by simp

section \<open>The decision cache\<close>

text \<open>
  Claim C9. Two calls of \<^verbatim>\<open>make_decision\<close> on the same engine, for intents of equal type
  whose texts agree on their first 20 characters and contexts of equal user\_id and
  time\_of\_day: after the first call the decision cache holds the first call's Decision
  under the key of the second call, and the second call returns that cached Decision and
  leaves the engine as it is, whatever the rest of the texts, the entities, the remote
  delegate's answers and the clock.
\<close>

theorem second_call_returns_cached:
  assumes "i_type intent2 = i_type intent1"
    and "take 20 (i_text intent2) = take 20 (i_text intent1)"
    and "c_user_id ctx2 = c_user_id ctx1"
    and "c_time_of_day ctx2 = c_time_of_day ctx1"
  shows "decision_cache (snd (make_decision engine outcome1 now1 intent1 ctx1 acts1))
           (get_decision_cache_key intent2 ctx2)
           = Some (fst (make_decision engine outcome1 now1 intent1 ctx1 acts1)) \<and>
         make_decision (snd (make_decision engine outcome1 now1 intent1 ctx1 acts1))
           outcome2 now2 intent2 ctx2 acts2
           = (fst (make_decision engine outcome1 now1 intent1 ctx1 acts1),
              snd (make_decision engine outcome1 now1 intent1 ctx1 acts1))"
proof -
  have k: "get_decision_cache_key intent2 ctx2 = get_decision_cache_key intent1 ctx1"
    using assms by (simp add: get_decision_cache_key_def)
  have c: "decision_cache (snd (make_decision engine outcome1 now1 intent1 ctx1 acts1))
             (get_decision_cache_key intent2 ctx2)
           = Some (fst (make_decision engine outcome1 now1 intent1 ctx1 acts1))"
    unfolding k by (rule make_decision_caches)
  from c make_decision_hit [OF c] show ?thesis by simp
qed

theorem second_call_returns_cached_witness:
  "i_type couloir_intent = i_type salon_intent \<and>
   take 20 (i_text couloir_intent) = take 20 (i_text salon_intent) \<and>
   i_text couloir_intent \<noteq> i_text salon_intent \<and>
   c_user_id empty_context = c_user_id empty_context \<and>
   c_time_of_day empty_context = c_time_of_day empty_context \<and>
   decision_cache (snd (make_decision new_engine TransportError 0 salon_intent empty_context []))
       (get_decision_cache_key couloir_intent empty_context)
     = Some (fst (make_decision new_engine TransportError 0 salon_intent empty_context [])) \<and>
   fst (make_decision
          (snd (make_decision new_engine TransportError 0 salon_intent empty_context []))
          (Response overconfident_response) 9 couloir_intent empty_context [])
     = fst (make_decision new_engine TransportError 0 salon_intent empty_context [])"
proof -
  have a: "i_type couloir_intent = i_type salon_intent"
    by (simp add: couloir_intent_def salon_intent_def)
  have b: "take 20 (i_text couloir_intent) = take 20 (i_text salon_intent)"
    by (simp add: couloir_intent_def salon_intent_def)
  have c: "i_text couloir_intent \<noteq> i_text salon_intent"
    by (simp add: couloir_intent_def salon_intent_def)
  show ?thesis
    using second_call_returns_cached [OF a b refl refl, where ?ctx1.0 = empty_context
        and engine = new_engine and ?outcome1.0 = TransportError and ?now1.0 = 0
        and ?acts1.0 = "[]" and ?outcome2.0 = "Response overconfident_response"
        and ?now2.0 = 9 and ?acts2.0 = "[]"] a b c
    by simp
qed

section \<open>Decision to command\<close>

text \<open>
  Claim C8. The translation of a Decision into a device command maps turn\_on to
  \<open>{on: true}\<close>, turn\_off to \<open>{on: false}\<close>, set\_brightness to \<open>{bri: b}\<close> with \<open>b\<close>
  the brightness parameter (100 when absent), set\_color to \<open>{hue: h, sat: s}\<close> with the
  hue (default 0) and saturation (default 100) parameters, query\_status to
  \<open>{query: "status"}\<close>, and every other action to the empty payload.
\<close>

theorem decision_to_command_table:
  "decision_to_command d =
     (if d_action d = ''turn_on'' then [(''on'', PBool True)]
      else if d_action d = ''turn_off'' then [(''on'', PBool False)]
      else if d_action d = ''set_brightness''
        then [(''bri'', dict_get (d_parameters d) ''brightness'' (PInt 100))]
      else if d_action d = ''set_color''
        then [(''hue'', dict_get (d_parameters d) ''hue'' (PInt 0)),
              (''sat'', dict_get (d_parameters d) ''saturation'' (PInt 100))]
      else if d_action d = ''query_status'' then [(''query'', PStr ''status'')]
      else [])"
  by (simp add: decision_to_command_def Let_def)

section \<open>The context cache and the history\<close>





lemma last10_short: "length xs \<le> 10 \<Longrightarrow> last10 xs = xs"
  by (simp add: last10_def)






lemma capped_Nil: "capped []"
  by (simp add: capped_def dict_get_def as_list_def)























lemma dict_set_fresh: "k \<notin> fst ` set d \<Longrightarrow> dict_set d k v = d @ [(k, v)]"
  by (induction d k v rule: dict_set.induct) auto

lemma dict_update_fresh:
  "distinct (map fst e) \<Longrightarrow> fst ` set d \<inter> fst ` set e = {} \<Longrightarrow> dict_update d e = d @ e"
proof (induction d e rule: dict_update.induct)
  case (1 d)
  then show ?case by simp
next
  case (2 d k v e)
  have f: "dict_set d k v = d @ [(k, v)]"
    using 2(3) by (intro dict_set_fresh) auto
  have "dict_update (d @ [(k, v)]) e = (d @ [(k, v)]) @ e"
    using 2 f by (intro 2(1) [unfolded f]) auto
  then show ?case by (simp add: f)
qed










section \<open>The protocol layer\<close>

lemma add_observer_distinct:
  "distinct (observers p) \<Longrightarrow> distinct (observers (add_observer p observer))"
  by (simp add: add_observer_def)

lemma mqtt_connect_unreachable:
  "mqtt_connect p (Unreachable msg) =
     (False,
      p\<lparr>state := ERROR,
        state_history := state_history p @ [CONNECTING, ERROR],
        notifications := notifications p
           @ map (\<lambda>observer. (observer, CONNECTING, None)) (observers p)
           @ map (\<lambda>observer. (observer, ERROR, None)) (observers p),
        mqtt_client := Some \<lparr>mc_has_client = True, mc_connected = False\<rparr>\<rparr>)"
  by (simp add: mqtt_connect_def notify_state_change_def mqtt_client_connect_def
      new_mqtt_client_def Let_def)

lemma filter_observer_distinct:
  "distinct os \<Longrightarrow> observer \<in> set os \<Longrightarrow>
   filter (\<lambda>n. fst n = observer \<and> P n) (map (\<lambda>x. (x, st, err)) os)
     = (if P (observer, st, err) then [(observer, st, err)] else [])"
  by (induction os) (auto simp: filter_empty_conv)

lemma observed_mqtt_fields:
  "state observed_mqtt = DISCONNECTED" "observers observed_mqtt = [1, 2]"
  "state_history observed_mqtt = []" "notifications observed_mqtt = []"
  by (simp_all add: observed_mqtt_def add_observer_def new_mqtt_protocol_def)

text \<open>
  Claim C5, as stated: \<^verbatim>\<open>connect()\<close> to an unreachable broker ends in ERROR, returns
  false and gives every observer one ERROR notification carrying a non-null error. The
  last part fails: the two observers of the protocol below get their ERROR notification
  with the error \<^verbatim>\<open>None\<close>, and none with an error.
\<close>

theorem mqtt_connect_error_counterexample:
  "state observed_mqtt = DISCONNECTED \<and>
   fst (mqtt_connect observed_mqtt (Unreachable ''refused'')) = False \<and>
   filter (\<lambda>n. fst (snd n) = ERROR)
     (notifications (snd (mqtt_connect observed_mqtt (Unreachable ''refused''))))
     = [(1, ERROR, None), (2, ERROR, None)] \<and>
   \<not> (\<exists>observer e. (observer, ERROR, Some e)
          \<in> set (notifications (snd (mqtt_connect observed_mqtt (Unreachable ''refused'')))))"
  by (auto simp: mqtt_connect_unreachable observed_mqtt_fields)

text \<open>
  Claim C5, amended: when \<^verbatim>\<open>MQTTProtocol.connect()\<close> is invoked in state DISCONNECTED
  and the broker is unreachable, the state goes DISCONNECTED, CONNECTING, ERROR,
  \<^verbatim>\<open>connect()\<close> returns false, and every registered observer receives exactly one
  \<^verbatim>\<open>on_state_change\<close> notification with state ERROR; its error is \<^verbatim>\<open>None\<close>, because
  \<^verbatim>\<open>MQTTClient.connect\<close> has caught the exception and reported \<^verbatim>\<open>False\<close>.
\<close>

theorem mqtt_connect_unreachable_notifies:
  assumes "state p = DISCONNECTED" and "distinct (observers p)"
  shows "fst (mqtt_connect p (Unreachable msg)) = False \<and>
         state (snd (mqtt_connect p (Unreachable msg))) = ERROR \<and>
         state p # drop (length (state_history p))
              (state_history (snd (mqtt_connect p (Unreachable msg))))
           = [DISCONNECTED, CONNECTING, ERROR] \<and>
         (\<forall>observer \<in> set (observers p).
            filter (\<lambda>n. fst n = observer \<and> fst (snd n) = ERROR)
              (drop (length (notifications p))
                 (notifications (snd (mqtt_connect p (Unreachable msg)))))
            = [(observer, ERROR, None)])"
  using assms by (simp add: mqtt_connect_unreachable filter_observer_distinct)

theorem mqtt_connect_unreachable_notifies_witness:
  "state observed_mqtt = DISCONNECTED \<and> distinct (observers observed_mqtt) \<and>
   observers observed_mqtt = [1, 2] \<and>
   fst (mqtt_connect observed_mqtt (Unreachable ''refused'')) = False \<and>
   state (snd (mqtt_connect observed_mqtt (Unreachable ''refused''))) = ERROR \<and>
   state_history (snd (mqtt_connect observed_mqtt (Unreachable ''refused'')))
     = [CONNECTING, ERROR] \<and>
   filter (\<lambda>n. fst n = 2 \<and> fst (snd n) = ERROR)
     (notifications (snd (mqtt_connect observed_mqtt (Unreachable ''refused''))))
     = [(2, ERROR, None)]"
proof -
  have d: "distinct (observers observed_mqtt)"
    by (simp add: observed_mqtt_fields)
  show ?thesis
    using mqtt_connect_unreachable_notifies [OF observed_mqtt_fields(1) d, of "''refused''"]
      d observed_mqtt_fields
    by simp
qed







section \<open>The intent parser\<close>

lemma first_word_None: "first_word words tx = None \<Longrightarrow> w \<in> set words \<Longrightarrow> \<not> starts_with tx w"
  by (induction words) (auto split: if_splits)

lemma first_word_Some: "first_word words tx = Some w \<Longrightarrow> w \<in> set words"
  by (induction words) (auto split: if_splits)

lemma findall_empty:
  "findall words tx = [] \<Longrightarrow> w \<in> set words \<Longrightarrow> \<not> contains tx w"
proof (induction words tx rule: findall.induct)
  case (1 words)
  then show ?case
    using first_word_None [of words "[]" w] by (cases w) (auto split: option.splits)
next
  case (2 words c cs)
  then show ?case
    using first_word_None [of words "c # cs" w] by (auto split: option.splits)
qed

lemma findall_subset: "set (findall words tx) \<subseteq> set words"
proof (induction words tx rule: findall.induct)
  case (1 words)
  then show ?case using first_word_Some [of words "[]"] by (auto split: option.splits)
next
  case (2 words c cs)
  then show ?case using first_word_Some [of words "c # cs"] by (auto split: option.splits)
qed

lemma add_matches_keeps: "entity_values \<noteq> [] \<Longrightarrow> add_matches entity_values matches \<noteq> []"
  by (induction entity_values matches rule: add_matches.induct) auto

lemma add_matches_first:
  "matches \<noteq> [] \<Longrightarrow> [] \<notin> set matches \<Longrightarrow> add_matches [] matches \<noteq> []"
  by (cases matches) (auto simp: add_matches_keeps)

lemma entity_values_of_keeps:
  "entity_values \<noteq> [] \<Longrightarrow> entity_values_of pats tx entity_values \<noteq> []"
  by (induction pats tx entity_values rule: entity_values_of.induct)
     (auto simp: add_matches_keeps)

lemma action_values_nonempty:
  assumes "keyword \<in> set on_off_keywords" and "contains tx keyword"
  shows "entity_values_of
           [Words [''allume'', CHR 0xE9 # ''teins'', ''active'', ''d'' @ CHR 0xE9 # ''sactive'',
                   ''mets'', ''change''],
            Words [''augmente'', ''diminue'', ''monte'', ''descends'', ''r'' @ CHR 0xE8 # ''gle'',
                   ''ajuste'']] tx [] \<noteq> []"
proof -
  let ?ws = "[''allume'', CHR 0xE9 # ''teins'', ''active'', ''d'' @ CHR 0xE9 # ''sactive'', ''mets'',
             ''change'']"
  have k: "keyword \<in> set ?ws"
    using assms(1) by (auto simp: on_off_keywords_def)
  have ne: "findall ?ws tx \<noteq> []"
    using findall_empty [of ?ws tx keyword] k assms(2) by blast
  have "[] \<notin> set ?ws" by simp
  then have "[] \<notin> set (findall ?ws tx)"
    using findall_subset [of ?ws tx] by blast
  then have "add_matches [] (findall ?ws tx) \<noteq> []"
    using ne by (simp add: add_matches_first)
  then show ?thesis
    by (simp add: add_matches_keeps)
qed

lemma extract_action:
  assumes "keyword \<in> set on_off_keywords" and "contains tx keyword"
  shows "\<exists>values. map_of (extract_entities_from entity_patterns tx) ''action'' = Some values \<and>
           values \<noteq> []"
  using action_values_nonempty [OF assms]
  by (simp add: entity_patterns_def Let_def)

lemma parse_ints_returns:
  "\<forall>v \<in> set vs. length v \<le> int_max_str_digits \<Longrightarrow> \<exists>numbers. parse_ints vs = Inr numbers"
  by (induction vs) (auto simp: parse_int_def)

lemma parse_ints_raises:
  "\<exists>v \<in> set vs. int_max_str_digits < length v \<Longrightarrow> parse_ints vs = Inl digits_limit_error"
proof (induction vs)
  case Nil
  then show ?case by simp
next
  case (Cons a vs)
  show ?case
  proof (cases "int_max_str_digits < length a")
    case True
    then show ?thesis by (simp add: parse_int_def)
  next
    case False
    then have "\<exists>v \<in> set vs. int_max_str_digits < length v"
      using Cons.prems by auto
    then have "parse_ints vs = Inl digits_limit_error"
      by (rule Cons.IH)
    then show ?thesis using False by (simp add: parse_int_def)
  qed
qed

lemma extract_entities_action:
  assumes "keyword \<in> set on_off_keywords" and "contains tx keyword"
    and "\<forall>v \<in> set (numeric_runs False tx). length v \<le> int_max_str_digits"
  shows "\<exists>entities values. extract_entities tx = Inr entities \<and>
           map_of entities ''action'' = Some values \<and> values \<noteq> []"
proof -
  obtain numbers where n: "parse_ints (numeric_runs False tx) = Inr numbers"
    using parse_ints_returns [OF assms(3)] by blast
  obtain vals where v: "map_of (extract_entities_from entity_patterns tx) ''action'' = Some vals"
      "vals \<noteq> []"
    using extract_action [OF assms(1,2)] by blast
  have "(others ++ map_of (extract_entities_from entity_patterns tx)) ''action'' = Some vals"
    for others
    using v(1) by (rule map_add_find_right)
  then show ?thesis
    using n v(2) by (simp add: extract_entities_def Let_def)
qed

text \<open>
  A run of more than 4300 digits in the text makes \<^verbatim>\<open>int\<close> raise, and \<^verbatim>\<open>parse\<close>
  with it.
\<close>

lemma parse_raises:
  assumes "\<exists>v \<in> set (numeric_runs False (strip (map lower_char tx))). int_max_str_digits < length v"
  shows "parse tx now = Inl digits_limit_error"
  using parse_ints_raises [OF assms]
  by (simp add: parse_def extract_entities_def Let_def split: prod.splits)

lemma max_by_score_all: "\<forall>x \<in> set (best # xs). snd x \<le> snd (max_by_score best xs)"
proof (induction xs arbitrary: best)
  case Nil
  then show ?case by simp
next
  case (Cons y ys)
  let ?b = "if snd best < snd y then y else best"
  have ih: "\<forall>x \<in> set (?b # ys). snd x \<le> snd (max_by_score ?b ys)"
    by (rule Cons.IH)
  then have top: "snd ?b \<le> snd (max_by_score ?b ys)" by simp
  have "snd best \<le> snd ?b" and "snd y \<le> snd ?b" by auto
  then have "snd best \<le> snd (max_by_score ?b ys)" and "snd y \<le> snd (max_by_score ?b ys)"
    using top by linarith+
  moreover have "\<forall>x \<in> set ys. snd x \<le> snd (max_by_score ?b ys)"
    using ih by simp
  ultimately show ?case by simp
qed

lemma max_by_score_ge: "x \<in> set (best # xs) \<Longrightarrow> snd x \<le> snd (max_by_score best xs)"
  using max_by_score_all [of best xs] by blast

lemma max_by_score_mem: "max_by_score best xs \<in> set (best # xs)"
proof (induction xs arbitrary: best)
  case Nil
  then show ?case by simp
next
  case (Cons y ys)
  show ?case using Cons.IH [of "if snd best < snd y then y else best"] by (auto split: if_splits)
qed

lemma max_by_score_first:
  "\<forall>x \<in> set xs. snd x \<le> snd best \<Longrightarrow> max_by_score best xs = best"
  by (induction xs arbitrary: best) auto

lemma score_nonneg: "0 \<le> score t tx"
  unfolding score_def by (intro add_nonneg_nonneg sum_list_nonneg) auto

lemma control_score_keyword:
  assumes "keyword \<in> set on_off_keywords" and "contains tx keyword"
  shows "0.2 \<le> score CONTROL tx"
proof -
  have p: "0 \<le> sum_list (map (\<lambda>pattern. if re_search pattern tx then 0.3 else (0::real))
             (patterns CONTROL))"
    by (intro sum_list_nonneg) auto
  have k: "keyword = ''allume'' \<or> keyword = CHR 0xE9 # ''teins'' \<or> keyword = ''active'' \<or>
           keyword = ''d'' @ CHR 0xE9 # ''sactive''"
    using assms(1) by (simp add: on_off_keywords_def)
  have "0.2 \<le> sum_list (map (\<lambda>keyword. if contains tx keyword then 0.2 else (0::real))
             (keyword_mapping CONTROL))"
    using k assms(2) by (elim disjE) simp_all
  then show ?thesis unfolding score_def using p by linarith
qed

lemma all_types: "t \<in> set all_intent_types"
  by (cases t) (simp_all add: all_intent_types_def)

lemma detect_intent_type_control:
  assumes "0 < score CONTROL tx"
  shows "(fst (detect_intent_type tx) = CONTROL) = (\<forall>t. score t tx \<le> score CONTROL tx)"
    and "0.1 \<le> snd (detect_intent_type tx)"
proof -
  define total where
    "total = sum_list (map snd (map (\<lambda>t. (t, score t tx)) all_intent_types))"
  define rest where "rest = [QUERY, AUTOMATION, SCENE, ROUTINE, DIAGNOSTIC]"
  define norm where "norm = (\<lambda>t. (t, score t tx / total))"
  have tot: "total = score CONTROL tx + score QUERY tx + score AUTOMATION tx
       + score SCENE tx + score ROUTINE tx + score DIAGNOSTIC tx"
    by (simp add: total_def all_intent_types_def)
  have pos: "0 < total"
    unfolding tot using assms score_nonneg [of QUERY tx] score_nonneg [of AUTOMATION tx]
      score_nonneg [of SCENE tx] score_nonneg [of ROUTINE tx]
      score_nonneg [of DIAGNOSTIC tx]
    by linarith
  define best where "best = max_by_score (norm CONTROL) (map norm rest)"
  have d: "detect_intent_type tx = (if snd best < 0.1 then (CONTROL, 0.1) else best)"
    unfolding detect_intent_type_def Let_def total_def [symmetric]
    using pos
    by (simp add: best_def norm_def rest_def all_intent_types_def del: max_by_score.simps)
  have ge: "score t tx / total \<le> snd best" for t
  proof -
    have "norm t \<in> set (norm CONTROL # map norm rest)"
      by (cases t) (simp_all add: rest_def)
    from max_by_score_ge [OF this] show ?thesis
      by (simp add: best_def norm_def)
  qed
  have "score CONTROL tx / total + score QUERY tx / total + score AUTOMATION tx / total
       + score SCENE tx / total + score ROUTINE tx / total + score DIAGNOSTIC tx / total = 1"
    using pos by (simp add: tot add_divide_distrib [symmetric])
  then have big: "1 \<le> 6 * snd best"
    using ge [of CONTROL] ge [of QUERY] ge [of AUTOMATION] ge [of SCENE] ge [of ROUTINE]
      ge [of DIAGNOSTIC]
    by linarith
  then have nb: "\<not> snd best < 0.1" by simp
  show "0.1 \<le> snd (detect_intent_type tx)"
    using nb by (simp add: d)
  show "(fst (detect_intent_type tx) = CONTROL) = (\<forall>t. score t tx \<le> score CONTROL tx)"
  proof (cases "\<forall>t. score t tx \<le> score CONTROL tx")
    case True
    then have "\<forall>x \<in> set (map norm rest). snd x \<le> snd (norm CONTROL)"
      using pos by (auto simp: norm_def divide_le_cancel)
    then have "best = norm CONTROL"
      unfolding best_def by (rule max_by_score_first)
    then show ?thesis using True nb by (simp add: d norm_def)
  next
    case False
    then obtain t where t: "score CONTROL tx < score t tx" by (auto simp: not_le)
    have "score CONTROL tx / total < score t tx / total"
      using t pos by (simp add: divide_strict_right_mono)
    then have lt: "snd (norm CONTROL) < snd best"
      using ge [of t] by (simp add: norm_def)
    have "best \<in> set (norm CONTROL # map norm rest)"
      unfolding best_def by (rule max_by_score_mem)
    then have "best \<in> set (map norm rest)"
      using lt by auto
    then have "fst best \<noteq> CONTROL"
      by (auto simp: norm_def rest_def)
    then show ?thesis using False nb by (simp add: d)
  qed
qed

lemma leaving_contains: "contains (strip (map lower_char leaving_text)) ''allume''"
  unfolding leaving_text_def by code_simp

lemma leaving_type: "map_sum id i_type (parse leaving_text 0) = Inr AUTOMATION"
  unfolding leaving_text_def by code_simp

lemma lamp_contains: "contains (strip (map lower_char lamp_text)) ''allume''"
  unfolding lamp_text_def by code_simp

lemma lamp_numbers: "numeric_runs False (strip (map lower_char lamp_text)) = []"
  unfolding lamp_text_def by code_simp

text \<open>
  Claim C7, as stated: for every text that contains an on/off keyword,
  \<^verbatim>\<open>IntentParser.parse\<close> returns type CONTROL, a non-empty action entity and a
  confidence of at least 0.1. The type fails: the text below contains "allume", and the
  parser scores it 0.5 for CONTROL and 0.7 for AUTOMATION (the words "quand" and "si"),
  so it returns an Intent of type AUTOMATION.
\<close>

theorem parse_keyword_not_control_counterexample:
  "''allume'' \<in> set on_off_keywords \<and>
   contains (strip (map lower_char leaving_text)) ''allume'' \<and>
   map_sum id i_type (parse leaving_text 0) = Inr AUTOMATION \<and>
   AUTOMATION \<noteq> CONTROL"
  using leaving_contains leaving_type by (simp add: on_off_keywords_def)

text \<open>
  Claim C7, amended: for every text whose lower-case, stripped form contains one of the
  on/off keywords and no number of more than 4300 digits, \<^verbatim>\<open>IntentParser.parse\<close>
  returns an Intent with a non-empty action entity list and a confidence of at least 0.1,
  and its type is CONTROL exactly when no other intent type has a higher score than
  CONTROL on the text.
\<close>

theorem parse_on_off_keyword:
  assumes "keyword \<in> set on_off_keywords"
    and "contains (strip (map lower_char tx)) keyword"
    and "\<forall>v \<in> set (numeric_runs False (strip (map lower_char tx))).
           length v \<le> int_max_str_digits"
  shows "\<exists>intent. parse tx now = Inr intent \<and>
           (\<exists>values. map_of (i_entities intent) ''action'' = Some values \<and> values \<noteq> []) \<and>
           0.1 \<le> i_confidence intent \<and>
           (i_type intent = CONTROL)
             = (\<forall>t. score t (strip (map lower_char tx))
                     \<le> score CONTROL (strip (map lower_char tx)))"
proof -
  let ?t = "strip (map lower_char tx)"
  have pos: "0 < score CONTROL ?t"
    using control_score_keyword [OF assms(1,2)] by linarith
  obtain entities vals where e: "extract_entities ?t = Inr entities"
      "map_of entities ''action'' = Some vals" "vals \<noteq> []"
    using extract_entities_action [OF assms] by blast
  have p: "parse tx now =
      Inr \<lparr>i_type = fst (detect_intent_type ?t), i_text = tx,
           i_confidence = snd (detect_intent_type ?t), i_entities = entities,
           i_timestamp = now\<rparr>"
    using e(1) by (simp add: parse_def Let_def split: prod.splits)
  show ?thesis
    using e(2,3) detect_intent_type_control [OF pos]
    by (simp add: p)
qed

theorem parse_on_off_keyword_witness:
  "''allume'' \<in> set on_off_keywords \<and>
   contains (strip (map lower_char lamp_text)) ''allume'' \<and>
   numeric_runs False (strip (map lower_char lamp_text)) = [] \<and>
   (\<exists>intent. parse lamp_text 0 = Inr intent \<and>
      (\<exists>values. map_of (i_entities intent) ''action'' = Some values \<and> values \<noteq> []) \<and>
      0.1 \<le> i_confidence intent)"
proof -
  have k: "''allume'' \<in> set on_off_keywords"
    by (simp add: on_off_keywords_def)
  have n: "\<forall>v \<in> set (numeric_runs False (strip (map lower_char lamp_text))).
             length v \<le> int_max_str_digits"
    by (simp add: lamp_numbers)
  show ?thesis
    using parse_on_off_keyword [OF k lamp_contains n, of 0] k lamp_contains lamp_numbers
    by auto
qed

end
